theory Spec2Isabelle
  imports Main "HOL-Library.Product_Lexorder"
begin

section \<open>NHS data integration pipeline: \<^verbatim>\<open>scripts/etl_pipeline.py\<close>\<close>

subsection \<open>Python values and exceptions\<close>

text \<open>
  The exceptions the modelled statements can raise. \<open>OtherError\<close> stands for whatever a
  user-defined \<^verbatim>\<open>__str__\<close> raises.
\<close>

datatype py_error = ValueError | IndexError | CatalogException | OtherError

text \<open>
  A cell of a data frame, or the argument handed to \<^verbatim>\<open>validate_nhs_number\<close>, is an arbitrary
  Python object. The model keeps the values the pipeline meets (strings, integers,
  \<^verbatim>\<open>None\<close>, the float NaN) and stands for every other object by the outcome of calling
  \<^verbatim>\<open>str()\<close> on it: the string returned or the exception raised.
  A Python string is modelled as a list of characters with code points below 256; among
  these the characters \<^verbatim>\<open>int()\<close> reads as a decimal digit are exactly \<^verbatim>\<open>0\<close> to \<^verbatim>\<open>9\<close>.
\<close>

datatype pyval =
    PyStr string
  | PyInt int
  | PyNone
  | PyNaN
  | PyObject "py_error + string"

text \<open>Sequencing of statements that may raise: the first exception ends the block.\<close>

definition bind_err :: "py_error + 'a \<Rightarrow> ('a \<Rightarrow> py_error + 'b) \<Rightarrow> py_error + 'b" where
  "bind_err m f = (case m of Inl e \<Rightarrow> Inl e | Inr x \<Rightarrow> f x)"

text \<open>
  \<^verbatim>\<open>str(n)\<close> for an integer: the decimal digits, with a minus sign below zero. (CPython
  from 3.11 on raises ValueError for integers of more than 4300 digits; inside the
  validator that is caught and gives false, as a string of more than ten characters does
  here.)
\<close>

definition digit_char :: "nat \<Rightarrow> char" where
  "digit_char d = ''0123456789'' ! (d mod 10)"

fun str_nat :: "nat \<Rightarrow> string" where
  "str_nat n = (if n < 10 then [digit_char n] else str_nat (n div 10) @ [digit_char (n mod 10)])"

declare str_nat.simps [simp del]

definition str_int :: "int \<Rightarrow> string" where
  "str_int n = (if n < 0 then CHR ''-'' # str_nat (nat (- n)) else str_nat (nat n))"

fun py_str :: "pyval \<Rightarrow> py_error + string" where
  "py_str (PyStr s) = Inr s"
| "py_str (PyInt n) = Inr (str_int n)"
| "py_str PyNone = Inr ''None''"
| "py_str PyNaN = Inr ''nan''"
| "py_str (PyObject r) = r"

text \<open>\<^verbatim>\<open>s[i]\<close> for \<open>i \<ge> 0\<close>: IndexError past the end.\<close>

definition py_index :: "string \<Rightarrow> nat \<Rightarrow> py_error + char" where
  "py_index s i = (if i < length s then Inr (s ! i) else Inl IndexError)"

text \<open>\<^verbatim>\<open>int(c)\<close> for a one-character string: the digit's value, ValueError for any other character.\<close>

definition py_int_char :: "char \<Rightarrow> py_error + int" where
  "py_int_char c =
     (let n = (of_char c :: nat)
      in if 48 \<le> n \<and> n \<le> 57 then Inr (int n - 48) else Inl ValueError)"

subsection \<open>The identifier validator\<close>

text \<open>
  \<^verbatim>\<open>for i in range(9): total += int(nhs_no[i]) * (10 - i)\<close>, as a recursion over the
  indices still to visit.
\<close>

fun weighted_total :: "string \<Rightarrow> nat list \<Rightarrow> int \<Rightarrow> py_error + int" where
  "weighted_total nhs_no [] tot = Inr tot"
| "weighted_total nhs_no (i # rest) tot =
     bind_err (py_index nhs_no i) (\<lambda>c.
     bind_err (py_int_char c) (\<lambda>d.
     weighted_total nhs_no rest (tot + d * (10 - int i))))"

text \<open>The last statement, \<^verbatim>\<open>return int(nhs_no[9]) == check_digit\<close>.\<close>

definition compare_tenth :: "string \<Rightarrow> int \<Rightarrow> py_error + bool" where
  "compare_tenth nhs_no check_digit =
     bind_err (py_index nhs_no 9) (\<lambda>c.
     bind_err (py_int_char c) (\<lambda>d. Inr (d = check_digit)))"

text \<open>The body of the \<^verbatim>\<open>try\<close> block: \<open>Inl\<close> is an exception raised inside it.\<close>

definition validate_body :: "pyval \<Rightarrow> py_error + bool" where
  "validate_body v =
     bind_err (py_str v) (\<lambda>nhs_no.
       if length nhs_no \<noteq> 10 then Inr False
       else
         bind_err (weighted_total nhs_no [0..<9] 0) (\<lambda>tot.
           let check_digit = 11 - (tot mod 11) in
           if check_digit = 11 then compare_tenth nhs_no 0
           else if check_digit = 10 then Inr False
           else compare_tenth nhs_no check_digit))"

text \<open>
  The whole function: the bare \<^verbatim>\<open>except:\<close> turns every exception of the body into
  \<^verbatim>\<open>return False\<close>. \<open>Inl\<close> would be an exception that escapes to the caller.
\<close>

definition validate_nhs_number :: "pyval \<Rightarrow> py_error + bool" where
  "validate_nhs_number v = (case validate_body v of Inl e \<Rightarrow> Inr False | Inr b \<Rightarrow> Inr b)"

text \<open>
  The checksum in the words of the specification, for a string of ten digits: the
  weighted sum of the first nine digits with weights 10 down to 2, \<open>check = 11 - sum mod 11\<close>,
  11 read as 0, 10 always invalid, otherwise the tenth digit must equal \<open>check\<close>.
\<close>

definition is_digit :: "char \<Rightarrow> bool" where
  "is_digit c = (48 \<le> (of_char c :: nat) \<and> (of_char c :: nat) \<le> 57)"

definition digit_value :: "char \<Rightarrow> int" where
  "digit_value c = int (of_char c) - 48"

definition spec_checksum_valid :: "string \<Rightarrow> bool" where
  "spec_checksum_valid s =
     (let weighted = (\<Sum>i\<leftarrow>[0..<9]. digit_value (s ! i) * (10 - int i));
          check = 11 - weighted mod 11
      in if check = 10 then False
         else digit_value (s ! 9) = (if check = 11 then 0 else check))"

subsection \<open>Source data frames\<close>

text \<open>
  A data frame is the list of its rows, a row a record of the columns the pipeline reads
  (the sources have further columns, which no statement of the transform phase touches).
  All four sources carry the column \<^verbatim>\<open>nhs_number\<close>.
\<close>

record keyed =
  nhs_number :: pyval

record patient = keyed +
  patient_id :: pyval
  title :: pyval
  first_name :: pyval
  last_name :: pyval
  date_of_birth :: pyval
  age :: pyval
  gender :: pyval
  ethnicity :: pyval
  postcode :: pyval
  city :: pyval

text \<open>
  A timestamp as \<^verbatim>\<open>pd.to_datetime\<close> returns it, by its calendar fields. A cell of a date
  column is a string that parses to a timestamp, a null (parsed to \<^verbatim>\<open>NaT\<close>), or a value on
  which \<^verbatim>\<open>pd.to_datetime\<close> raises.
\<close>

record timestamp =
  ts_year :: nat
  ts_month :: nat
  ts_day :: nat
  ts_hour :: nat
  ts_minute :: nat
  ts_second :: nat

datatype date_cell = Stamp timestamp | Null | Unparseable

text \<open>
  The cell \<^verbatim>\<open>primary_diagnosis\<close> of an encounter document: null, a nested object, or some
  other scalar.
\<close>

datatype diagnosis_cell =
    NoDiagnosis
  | DiagnosisDict "string \<rightharpoonup> pyval"
  | NotADict pyval

record encounter_cols = keyed +
  encounter_id :: pyval
  encounter_date :: date_cell
  encounter_type :: pyval
  department :: pyval

record encounter = encounter_cols +
  primary_diagnosis :: diagnosis_cell

record lab_result = keyed +
  test_id :: pyval
  test_type :: pyval
  test_component :: pyval
  order_date :: date_cell
  result_value :: pyval
  is_abnormal :: pyval

record appointment = keyed +
  appointment_id :: pyval
  appointment_date :: date_cell
  appointment_type :: pyval
  specialty :: pyval
  attendance_status :: pyval

subsection \<open>Helpers for columns\<close>

text \<open>Applying a raising function down a column: the first exception ends the run.\<close>

fun traverse_err :: "('a \<Rightarrow> py_error + 'b) \<Rightarrow> 'a list \<Rightarrow> py_error + 'b list" where
  "traverse_err f [] = Inr []"
| "traverse_err f (x # xs) =
     bind_err (f x) (\<lambda>y.
     bind_err (traverse_err f xs) (\<lambda>ys. Inr (y # ys)))"

text \<open>
  \<^verbatim>\<open>Series.unique()\<close> and \<^verbatim>\<open>DataFrame.drop_duplicates()\<close>: the values in order of first
  appearance, each kept once. \<open>seen\<close> holds the values met so far.
\<close>

fun unique_from :: "'a list \<Rightarrow> 'a list \<Rightarrow> 'a list" where
  "unique_from seen [] = []"
| "unique_from seen (x # xs) =
     (if x \<in> set seen then unique_from seen xs else x # unique_from (x # seen) xs)"

definition unique :: "'a list \<Rightarrow> 'a list" where
  "unique xs = unique_from [] xs"

definition drop_duplicates :: "'a list \<Rightarrow> 'a list" where
  "drop_duplicates rows = unique_from [] rows"

text \<open>\<^verbatim>\<open>pd.to_datetime(column)\<close>: a null becomes \<^verbatim>\<open>NaT\<close> (\<open>None\<close>), an unparseable cell raises.\<close>

fun to_datetime_cell :: "date_cell \<Rightarrow> py_error + timestamp option" where
  "to_datetime_cell (Stamp t) = Inr (Some t)"
| "to_datetime_cell Null = Inr None"
| "to_datetime_cell Unparseable = Inl ValueError"

definition to_datetime :: "date_cell list \<Rightarrow> py_error + timestamp option list" where
  "to_datetime column = traverse_err to_datetime_cell column"

text \<open>
  \<^verbatim>\<open>.dt.strftime('%Y%m%d').astype(int)\<close> on one value. A pandas timestamp has a four-digit
  year, so the eight characters read as year, month and day in base 10000 and 100.
  \<^verbatim>\<open>NaT\<close> formats to NaN, on which \<^verbatim>\<open>astype(int)\<close> raises.
\<close>

definition strftime_Ymd_int :: "timestamp \<Rightarrow> int" where
  "strftime_Ymd_int t = int (ts_year t * 10000 + ts_month t * 100 + ts_day t)"

fun date_key_of :: "timestamp option \<Rightarrow> py_error + int" where
  "date_key_of None = Inl ValueError"
| "date_key_of (Some t) = Inr (strftime_Ymd_int t)"

text \<open>The order of timestamps: lexicographic on the calendar fields.\<close>

definition ts_order :: "timestamp \<Rightarrow> nat \<times> nat \<times> nat \<times> nat \<times> nat \<times> nat" where
  "ts_order t = (ts_year t, ts_month t, ts_day t, ts_hour t, ts_minute t, ts_second t)"

text \<open>\<^verbatim>\<open>.dt.quarter\<close> and \<^verbatim>\<open>.dt.dayofweek\<close> (Monday is 0), by the count of days since 1970-01-01.\<close>

definition quarter_of :: "timestamp \<Rightarrow> int" where
  "quarter_of t = (int (ts_month t) - 1) div 3 + 1"

definition days_from_civil :: "int \<Rightarrow> int \<Rightarrow> int \<Rightarrow> int" where
  "days_from_civil y m d =
     (let y' = (if m \<le> 2 then y - 1 else y);
          era = y' div 400;
          yoe = y' - era * 400;
          doy = (153 * (if m > 2 then m - 3 else m + 9) + 2) div 5 + d - 1;
          doe = yoe * 365 + yoe div 4 - yoe div 100 + doy
      in era * 146097 + doe - 719468)"

definition dayofweek :: "timestamp \<Rightarrow> int" where
  "dayofweek t =
     (days_from_civil (int (ts_year t)) (int (ts_month t)) (int (ts_day t)) + 3) mod 7"

subsection \<open>Dimension tables\<close>

record dim_patient_row = patient +
  patient_key :: int

record dim_date_row =
  date :: timestamp
  date_key :: int
  year :: int
  quarter :: int
  month :: int
  day :: int
  day_of_week :: int

record diagnosis =
  icd10_code :: pyval
  description :: pyval

record dim_diagnosis_row = diagnosis +
  diagnosis_key :: int

text \<open>
  \<^verbatim>\<open>dim_patient = df_pas[[...]].copy(); dim_patient['patient_key'] = range(1, len(dim_patient) + 1)\<close>
\<close>

definition dim_patient :: "patient list \<Rightarrow> dim_patient_row list" where
  "dim_patient df_pas =
     map (\<lambda>(row, k). patient.extend row (dim_patient_row.fields k))
         (zip df_pas [1..int (length df_pas)])"

text \<open>
  One row of \<^verbatim>\<open>unique_dates\<close> with its derived columns; on \<^verbatim>\<open>NaT\<close> the date key raises
  as in \<open>date_key_of\<close>.
\<close>

fun date_row :: "timestamp option \<Rightarrow> py_error + dim_date_row" where
  "date_row None = Inl ValueError"
| "date_row (Some t) =
     Inr \<lparr>date = t, date_key = strftime_Ymd_int t, year = int (ts_year t),
          quarter = quarter_of t, month = int (ts_month t), day = int (ts_day t),
          day_of_week = dayofweek t\<rparr>"

text \<open>
  \<^verbatim>\<open>all_dates = pd.concat([...]); unique_dates = pd.DataFrame({'date': all_dates.unique()})\<close>,
  the derived columns, and \<^verbatim>\<open>dim_date = unique_dates.sort_values('date')\<close>.
\<close>

definition dim_date ::
  "encounter list \<Rightarrow> lab_result list \<Rightarrow> appointment list \<Rightarrow> py_error + dim_date_row list" where
  "dim_date df_ehr df_lims df_appointments =
     bind_err (to_datetime (map encounter_date df_ehr)) (\<lambda>ehr_dates.
     bind_err (to_datetime (map order_date df_lims)) (\<lambda>lims_dates.
     bind_err (to_datetime (map appointment_date df_appointments)) (\<lambda>appointment_dates.
       let all_dates = ehr_dates @ lims_dates @ appointment_dates;
           unique_dates = unique all_dates
       in bind_err (traverse_err date_row unique_dates) (\<lambda>rows.
            Inr (sort_key (\<lambda>r. ts_order (dim_date_row.date r)) rows)))))"

text \<open>\<^verbatim>\<open>pd.notna\<close> on a diagnosis cell, \<^verbatim>\<open>dict.get\<close>, and the loop that fills \<^verbatim>\<open>diagnosis_data\<close>.\<close>

fun notna :: "diagnosis_cell \<Rightarrow> bool" where
  "notna NoDiagnosis = False"
| "notna (DiagnosisDict d) = True"
| "notna (NotADict v) = True"

definition dict_get :: "(string \<rightharpoonup> pyval) \<Rightarrow> string \<Rightarrow> pyval" where
  "dict_get d k = (case d k of None \<Rightarrow> PyNone | Some v \<Rightarrow> v)"

fun diagnosis_data :: "encounter list \<Rightarrow> diagnosis list" where
  "diagnosis_data [] = []"
| "diagnosis_data (row # rest) =
     (if notna (primary_diagnosis row) then
        (case primary_diagnosis row of
           DiagnosisDict diag \<Rightarrow>
             \<lparr>icd10_code = dict_get diag ''icd10_code'',
              description = dict_get diag ''description''\<rparr> # diagnosis_data rest
         | _ \<Rightarrow> diagnosis_data rest)
      else diagnosis_data rest)"

definition dim_diagnosis :: "encounter list \<Rightarrow> dim_diagnosis_row list" where
  "dim_diagnosis df_ehr =
     (let deduplicated = drop_duplicates (diagnosis_data df_ehr)
      in map (\<lambda>(row, k). diagnosis.extend row (dim_diagnosis_row.fields k))
             (zip deduplicated [1..int (length deduplicated)]))"

subsection \<open>Fact tables\<close>

text \<open>
  \<^verbatim>\<open>left.merge(dim_patient[['nhs_number', 'patient_key']], on='nhs_number', how='left')\<close>:
  the left rows in their order, each once per matching right row, and once with a null
  key when nothing matches. Keys are compared as cells; a null key matches a null key, as
  in pandas.
\<close>

definition merge_left ::
  "'a keyed_scheme list \<Rightarrow> (pyval \<times> int) list \<Rightarrow> ('a keyed_scheme \<times> int option) list" where
  "merge_left left right =
     concat (map (\<lambda>row.
       case filter (\<lambda>(k, pk). k = nhs_number row) right of
         [] \<Rightarrow> [(row, None)]
       | matches \<Rightarrow> map (\<lambda>(k, pk). (row, Some pk)) matches) left)"

text \<open>
  A fact row: the event columns, the patient key from the merge and the date key. The
  date column is overwritten by its parsed value; the record keeps the cell it is parsed
  from.
\<close>

record 'ev fact_row =
  event :: 'ev
  patient_key :: "int option"
  date_key :: int

text \<open>
  The three fact blocks run the same statements on their own source and date column:
  the merge, \<^verbatim>\<open>pd.to_datetime\<close> on the date column, and the date key.
\<close>

definition build_fact ::
  "('a keyed_scheme \<Rightarrow> date_cell) \<Rightarrow> 'a keyed_scheme list \<Rightarrow> dim_patient_row list
     \<Rightarrow> py_error + 'a keyed_scheme fact_row list" where
  "build_fact date_column events dim_patient_tbl =
     (let merged = merge_left events
            (map (\<lambda>p. (nhs_number p, dim_patient_row.patient_key p)) dim_patient_tbl)
      in bind_err (to_datetime (map (\<lambda>(row, pk). date_column row) merged)) (\<lambda>dates.
         bind_err (traverse_err date_key_of dates) (\<lambda>keys.
           Inr (map (\<lambda>((row, pk), k). \<lparr>event = row, patient_key = pk, date_key = k\<rparr>)
                    (zip merged keys)))))"

definition fact_encounters ::
  "encounter list \<Rightarrow> dim_patient_row list \<Rightarrow> py_error + encounter_cols fact_row list" where
  "fact_encounters df_ehr dim_patient_tbl =
     build_fact encounter_date (map encounter_cols.truncate df_ehr) dim_patient_tbl"

definition fact_lab_tests ::
  "lab_result list \<Rightarrow> dim_patient_row list \<Rightarrow> py_error + lab_result fact_row list" where
  "fact_lab_tests df_lims dim_patient_tbl = build_fact order_date df_lims dim_patient_tbl"

definition fact_appointments ::
  "appointment list \<Rightarrow> dim_patient_row list \<Rightarrow> py_error + appointment fact_row list" where
  "fact_appointments df_appointments dim_patient_tbl =
     build_fact appointment_date df_appointments dim_patient_tbl"

subsection \<open>The transform phase\<close>

record tables =
  tbl_dim_patient :: "dim_patient_row list"
  tbl_dim_date :: "dim_date_row list"
  tbl_dim_diagnosis :: "dim_diagnosis_row list"
  tbl_fact_encounters :: "encounter_cols fact_row list"
  tbl_fact_lab_tests :: "lab_result fact_row list"
  tbl_fact_appointments :: "appointment fact_row list"

text \<open>The six blocks in the order of the script; an exception in one ends the run.\<close>

definition transform ::
  "patient list \<Rightarrow> encounter list \<Rightarrow> lab_result list \<Rightarrow> appointment list \<Rightarrow> py_error + tables" where
  "transform df_pas df_ehr df_lims df_appointments =
     (let dp = dim_patient df_pas in
      bind_err (dim_date df_ehr df_lims df_appointments) (\<lambda>dd.
      let dg = dim_diagnosis df_ehr in
      bind_err (fact_encounters df_ehr dp) (\<lambda>fe.
      bind_err (fact_lab_tests df_lims dp) (\<lambda>fl.
      bind_err (fact_appointments df_appointments dp) (\<lambda>fa.
        Inr \<lparr>tbl_dim_patient = dp, tbl_dim_date = dd, tbl_dim_diagnosis = dg,
             tbl_fact_encounters = fe, tbl_fact_lab_tests = fl,
             tbl_fact_appointments = fa\<rparr>)))))"

subsection \<open>The load phase\<close>







subsection \<open>Example data\<close>

text \<open>
  Two timestamps on one calendar day and one on the next, and source rows that carry only
  an identifier and a date.
\<close>

definition morning :: timestamp where
  "morning = \<lparr>ts_year = 2024, ts_month = 1, ts_day = 5, ts_hour = 9, ts_minute = 0, ts_second = 0\<rparr>"

definition evening :: timestamp where
  "evening = \<lparr>ts_year = 2024, ts_month = 1, ts_day = 5, ts_hour = 17, ts_minute = 30, ts_second = 0\<rparr>"

definition next_day :: timestamp where
  "next_day = \<lparr>ts_year = 2024, ts_month = 1, ts_day = 6, ts_hour = 0, ts_minute = 0, ts_second = 0\<rparr>"

definition example_patient :: "int \<Rightarrow> patient" where
  "example_patient n =
     \<lparr>nhs_number = PyInt n, patient_id = PyNone, title = PyNone, first_name = PyNone,
      last_name = PyNone, date_of_birth = PyNone, age = PyNone, gender = PyNone,
      ethnicity = PyNone, postcode = PyNone, city = PyNone\<rparr>"

definition example_encounter :: "int \<Rightarrow> timestamp \<Rightarrow> encounter" where
  "example_encounter n t =
     \<lparr>nhs_number = PyInt n, encounter_id = PyNone, encounter_date = Stamp t,
      encounter_type = PyNone, department = PyNone, primary_diagnosis = NoDiagnosis\<rparr>"

definition example_lab_result :: "int \<Rightarrow> timestamp \<Rightarrow> lab_result" where
  "example_lab_result n t =
     \<lparr>nhs_number = PyInt n, test_id = PyNone, test_type = PyNone, test_component = PyNone,
      order_date = Stamp t, result_value = PyNone, is_abnormal = PyNone\<rparr>"

definition example_appointment :: "int \<Rightarrow> timestamp \<Rightarrow> appointment" where
  "example_appointment n t =
     \<lparr>nhs_number = PyInt n, appointment_id = PyNone, appointment_date = Stamp t,
      appointment_type = PyNone, specialty = PyNone, attendance_status = PyNone\<rparr>"

section \<open>Properties of the identifier validator\<close>

lemma py_int_char_digit: "is_digit c \<Longrightarrow> py_int_char c = Inr (digit_value c)"
  by (simp add: py_int_char_def is_digit_def digit_value_def)


lemma weighted_total_digits:
  "\<forall>i \<in> set idxs. i < length s \<and> is_digit (s ! i) \<Longrightarrow>
   weighted_total s idxs t = Inr (t + (\<Sum>i\<leftarrow>idxs. digit_value (s ! i) * (10 - int i)))"
  by (induction idxs arbitrary: t) (simp_all add: bind_err_def py_index_def py_int_char_digit)


lemma compare_tenth_digit:
  "length s = 10 \<Longrightarrow> is_digit (s ! 9) \<Longrightarrow> compare_tenth s k = Inr (digit_value (s ! 9) = k)"
  by (simp add: compare_tenth_def bind_err_def py_index_def py_int_char_digit)


text \<open>The example of the specification, as a string and as an integer.\<close>

lemma validate_example_string: "validate_nhs_number (PyStr ''9434765919'') = Inr True"
  by (simp add: validate_nhs_number_def validate_body_def bind_err_def py_index_def
      py_int_char_def compare_tenth_def upt_rec Let_def)

lemma validate_example_integer: "validate_nhs_number (PyInt 9434765919) = Inr True"
  by (simp add: validate_nhs_number_def validate_body_def bind_err_def py_index_def
      py_int_char_def compare_tenth_def upt_rec Let_def str_int_def str_nat.simps digit_char_def)

text \<open>
  Claim C2. On every string of exactly ten digits \<^verbatim>\<open>validate_nhs_number\<close> returns what the
  checksum of the specification says: the weighted sum of the first nine digits (weights
  10 down to 2), \<open>check = 11 - sum mod 11\<close>, 11 read as 0, 10 always invalid, and otherwise
  the tenth digit equal to \<open>check\<close>.
\<close>

theorem validate_checksum:
  assumes len: "length s = 10" and digits: "\<forall>c \<in> set s. is_digit c"
  shows "validate_nhs_number (PyStr s) = Inr (spec_checksum_valid s)"
proof -
  define w where "w = (\<Sum>i\<leftarrow>[0..<9]. digit_value (s ! i) * (10 - int i))"
  have idx: "\<forall>i \<in> set [0..<9]. i < length s \<and> is_digit (s ! i)"
    using len digits by simp
  have tot: "weighted_total s [0..<9] 0 = Inr w"
    using weighted_total_digits [OF idx, of 0] by (simp add: w_def)
  have tenth: "is_digit (s ! 9)"
    using len digits by simp
  have body: "validate_body (PyStr s) =
      (if 11 - w mod 11 = 11 then Inr (digit_value (s ! 9) = 0)
       else if 11 - w mod 11 = 10 then Inr False
       else Inr (digit_value (s ! 9) = 11 - w mod 11))"
    unfolding validate_body_def
    by (simp add: bind_err_def tot len Let_def compare_tenth_digit [OF len tenth])
  have spec: "spec_checksum_valid s =
      (if 11 - w mod 11 = 10 then False
       else digit_value (s ! 9) = (if 11 - w mod 11 = 11 then 0 else 11 - w mod 11))"
    unfolding spec_checksum_valid_def w_def by (simp add: Let_def)
  show ?thesis
    unfolding validate_nhs_number_def body spec by simp
qed

theorem validate_checksum_witness:
  "length ''9434765919'' = 10 \<and> list_all is_digit ''9434765919''
   \<and> spec_checksum_valid ''9434765919''
   \<and> validate_nhs_number (PyStr ''9434765919'') = Inr True"
proof -
  have len: "length ''9434765919'' = 10" by simp
  have digits: "\<forall>c \<in> set ''9434765919''. is_digit c" by (simp add: is_digit_def)
  have valid: "spec_checksum_valid ''9434765919''"
    by (simp add: spec_checksum_valid_def digit_value_def upt_rec Let_def)
  from validate_checksum [OF len digits] valid len digits show ?thesis
    by (simp add: list_all_iff)
qed




section \<open>Properties of the dimension tables\<close>

lemma upto_from_one: "[1..int n] = map (\<lambda>i. int i + 1) [0..<n]"
proof (induction n)
  case 0
  then show ?case by simp
next
  case (Suc n)
  have "[1..int (Suc n)] = [1..int n] @ [int n + 1]"
    by (simp add: upto_rec2 add.commute)
  with Suc show ?case by simp
qed

lemma length_upto_from_one: "length [1..int n] = n"
  by (simp add: upto_from_one)

lemma map_zip_left:
  assumes "length xs = length ys" and "\<And>x y. h (F x y) = g x"
  shows "map h (map (\<lambda>(x, y). F x y) (zip xs ys)) = map g xs"
  using assms by (induction xs ys rule: list_induct2) simp_all

lemma map_zip_right:
  assumes "length xs = length ys" and "\<And>x y. h (F x y) = g y"
  shows "map h (map (\<lambda>(x, y). F x y) (zip xs ys)) = map g ys"
  using assms by (induction xs ys rule: list_induct2) simp_all

lemma patient_truncate_extend: "patient.truncate (patient.extend row (dim_patient_row.fields k)) = row"
  by (simp add: patient.truncate_def patient.extend_def dim_patient_row.fields_def)

lemma patient_key_extend:
  "dim_patient_row.patient_key (patient.extend row (dim_patient_row.fields k)) = k"
  by (simp add: patient.extend_def dim_patient_row.fields_def)

lemma dim_patient_truncate: "map patient.truncate (dim_patient df_pas) = df_pas"
  unfolding dim_patient_def
  using map_zip_left [of df_pas "[1..int (length df_pas)]" patient.truncate
      "\<lambda>row k. patient.extend row (dim_patient_row.fields k)" "\<lambda>r. r"]
  by (simp add: patient_truncate_extend length_upto_from_one)

lemma dim_patient_keys:
  "map dim_patient_row.patient_key (dim_patient df_pas) = [1..int (length df_pas)]"
  unfolding dim_patient_def
  using map_zip_right [of df_pas "[1..int (length df_pas)]" dim_patient_row.patient_key
      "\<lambda>row k. patient.extend row (dim_patient_row.fields k)" "\<lambda>k. k"]
  by (simp add: patient_key_extend length_upto_from_one)

text \<open>
  Claim C7. The patient dimension has one row per source patient row, every projected
  column is the source's, and the surrogate keys are \<open>1..N\<close> in source row order: the row at
  position \<open>i\<close> (from 0) has key \<open>i + 1\<close>, so keys and positions correspond one to one.
\<close>

theorem dim_patient_surrogate_keys:
  "length (dim_patient df_pas) = length df_pas
   \<and> map patient.truncate (dim_patient df_pas) = df_pas
   \<and> map dim_patient_row.patient_key (dim_patient df_pas)
       = map (\<lambda>i. int i + 1) [0..<length df_pas]
   \<and> distinct (map dim_patient_row.patient_key (dim_patient df_pas))
   \<and> set (map dim_patient_row.patient_key (dim_patient df_pas)) = {1..int (length df_pas)}"
proof -
  have len: "length (dim_patient df_pas) = length df_pas"
    by (simp add: dim_patient_def length_upto_from_one)
  have keys: "map dim_patient_row.patient_key (dim_patient df_pas) = [1..int (length df_pas)]"
    by (rule dim_patient_keys)
  have pos: "map dim_patient_row.patient_key (dim_patient df_pas)
      = map (\<lambda>i. int i + 1) [0..<length df_pas]"
    by (simp only: keys upto_from_one)
  have dist: "distinct (map dim_patient_row.patient_key (dim_patient df_pas))"
    by (simp only: keys distinct_upto)
  have range: "set (map dim_patient_row.patient_key (dim_patient df_pas)) = {1..int (length df_pas)}"
    by (simp only: keys set_upto)
  from len dim_patient_truncate pos dist range show ?thesis by blast
qed

lemma set_unique_from: "set (unique_from seen xs) = set xs - set seen"
  by (induction xs arbitrary: seen) auto

lemma distinct_unique_from: "distinct (unique_from seen xs)"
  by (induction xs arbitrary: seen) (auto simp add: set_unique_from)

lemma diagnosis_data_filter:
  "diagnosis_data (filter (\<lambda>e. notna (primary_diagnosis e)) df_ehr) = diagnosis_data df_ehr"
  by (induction df_ehr) (simp_all split: diagnosis_cell.splits)

lemma set_diagnosis_data:
  "set (diagnosis_data df_ehr) =
     {\<lparr>icd10_code = dict_get d ''icd10_code'', description = dict_get d ''description''\<rparr> | d.
        DiagnosisDict d \<in> set (map primary_diagnosis df_ehr)}"
proof (induction df_ehr)
  case Nil
  then show ?case by simp
next
  case (Cons row rest)
  show ?case
  proof (cases "primary_diagnosis row")
    case NoDiagnosis
    with Cons show ?thesis by auto
  next
    case (DiagnosisDict d)
    with Cons show ?thesis by auto
  next
    case (NotADict v)
    with Cons show ?thesis by auto
  qed
qed

lemma diagnosis_truncate_extend:
  "diagnosis.truncate (diagnosis.extend row (dim_diagnosis_row.fields k)) = row"
  by (simp add: diagnosis.truncate_def diagnosis.extend_def dim_diagnosis_row.fields_def)

lemma diagnosis_key_extend:
  "dim_diagnosis_row.diagnosis_key (diagnosis.extend row (dim_diagnosis_row.fields k)) = k"
  by (simp add: diagnosis.extend_def dim_diagnosis_row.fields_def)

lemma dim_diagnosis_truncate:
  "map diagnosis.truncate (dim_diagnosis df_ehr) = drop_duplicates (diagnosis_data df_ehr)"
  unfolding dim_diagnosis_def Let_def
  using map_zip_left [of "drop_duplicates (diagnosis_data df_ehr)"
      "[1..int (length (drop_duplicates (diagnosis_data df_ehr)))]" diagnosis.truncate
      "\<lambda>row k. diagnosis.extend row (dim_diagnosis_row.fields k)" "\<lambda>r. r"]
  by (simp add: diagnosis_truncate_extend length_upto_from_one)

lemma dim_diagnosis_keys:
  "map dim_diagnosis_row.diagnosis_key (dim_diagnosis df_ehr)
     = [1..int (length (drop_duplicates (diagnosis_data df_ehr)))]"
  unfolding dim_diagnosis_def Let_def
  using map_zip_right [of "drop_duplicates (diagnosis_data df_ehr)"
      "[1..int (length (drop_duplicates (diagnosis_data df_ehr)))]"
      dim_diagnosis_row.diagnosis_key
      "\<lambda>row k. diagnosis.extend row (dim_diagnosis_row.fields k)" "\<lambda>k. k"]
  by (simp add: diagnosis_key_extend length_upto_from_one)

lemma length_dim_diagnosis:
  "length (dim_diagnosis df_ehr) = length (drop_duplicates (diagnosis_data df_ehr))"
  by (simp add: dim_diagnosis_def Let_def length_upto_from_one)

text \<open>
  Claim C8. The diagnosis dimension holds no (code, description) pair twice; its pairs are
  exactly those of the encounters whose primary diagnosis is a nested object, so that an
  encounter without a primary diagnosis adds no row (dropping such encounters changes
  nothing, and encounters that all lack a diagnosis give an empty table); the surrogate
  keys are \<open>1..M\<close> over the deduplicated rows.
\<close>

theorem dim_diagnosis_deduplicated:
  "distinct (map diagnosis.truncate (dim_diagnosis df_ehr))
   \<and> set (map diagnosis.truncate (dim_diagnosis df_ehr)) =
       {\<lparr>icd10_code = dict_get d ''icd10_code'', description = dict_get d ''description''\<rparr> | d.
          DiagnosisDict d \<in> set (map primary_diagnosis df_ehr)}
   \<and> dim_diagnosis df_ehr = dim_diagnosis (filter (\<lambda>e. notna (primary_diagnosis e)) df_ehr)
   \<and> dim_diagnosis (filter (\<lambda>e. \<not> notna (primary_diagnosis e)) df_ehr) = []
   \<and> map dim_diagnosis_row.diagnosis_key (dim_diagnosis df_ehr)
       = map (\<lambda>i. int i + 1) [0..<length (dim_diagnosis df_ehr)]"
proof -
  have dist: "distinct (map diagnosis.truncate (dim_diagnosis df_ehr))"
    by (simp only: dim_diagnosis_truncate drop_duplicates_def distinct_unique_from)
  have rows: "set (map diagnosis.truncate (dim_diagnosis df_ehr)) =
       {\<lparr>icd10_code = dict_get d ''icd10_code'', description = dict_get d ''description''\<rparr> | d.
          DiagnosisDict d \<in> set (map primary_diagnosis df_ehr)}"
    by (simp only: dim_diagnosis_truncate drop_duplicates_def set_unique_from set_diagnosis_data)
       simp
  have present: "dim_diagnosis df_ehr
      = dim_diagnosis (filter (\<lambda>e. notna (primary_diagnosis e)) df_ehr)"
    by (simp only: dim_diagnosis_def diagnosis_data_filter)
  have "diagnosis_data (filter (\<lambda>e. \<not> notna (primary_diagnosis e)) df_ehr) = []"
    by (induction df_ehr) simp_all
  then have absent: "dim_diagnosis (filter (\<lambda>e. \<not> notna (primary_diagnosis e)) df_ehr) = []"
    by (simp add: dim_diagnosis_def drop_duplicates_def)
  have keys: "map dim_diagnosis_row.diagnosis_key (dim_diagnosis df_ehr)
       = map (\<lambda>i. int i + 1) [0..<length (dim_diagnosis df_ehr)]"
    by (simp only: dim_diagnosis_keys length_dim_diagnosis upto_from_one)
  from dist rows present absent keys show ?thesis by blast
qed

section \<open>Properties of the load phase\<close>




section \<open>Properties of the date dimension\<close>

text \<open>Unfolding rules for running the transform phase on the example data.\<close>

lemmas example_defs = morning_def evening_def next_day_def example_patient_def
  example_encounter_def example_lab_result_def example_appointment_def

lemmas dim_date_eval = dim_date_def to_datetime_def bind_err_def unique_def Let_def
  strftime_Ymd_int_def ts_order_def quarter_of_def dayofweek_def days_from_civil_def

lemmas fact_eval = transform_def dim_patient_def dim_diagnosis_def drop_duplicates_def
  fact_encounters_def fact_lab_tests_def fact_appointments_def build_fact_def merge_left_def
  encounter_cols.truncate_def patient.extend_def dim_patient_row.fields_def

lemma traverse_err_length:
  "traverse_err f xs = Inr ys \<Longrightarrow> length ys = length xs"
  by (induction xs arbitrary: ys) (auto simp add: bind_err_def split: sum.splits)

lemma to_datetime_stamps:
  "to_datetime column = Inr dates \<Longrightarrow>
     {t. Some t \<in> set dates} = {t. Stamp t \<in> set column}"
  unfolding to_datetime_def
proof (induction column arbitrary: dates)
  case Nil
  then show ?case by simp
next
  case (Cons c cs)
  then obtain d ds where d: "to_datetime_cell c = Inr d"
    and ds: "traverse_err to_datetime_cell cs = Inr ds" and dates: "dates = d # ds"
    by (auto simp add: bind_err_def split: sum.splits)
  from Cons.IH [OF ds] have rest: "{t. Some t \<in> set ds} = {t. Stamp t \<in> set cs}" .
  from d have "{t. Some t = d} = {t. Stamp t = c}"
    by (cases c) auto
  with rest dates show ?case by auto
qed

lemma date_rows_keys:
  "traverse_err date_row ds = Inr rows \<Longrightarrow>
     set (map dim_date_row.date_key rows) = strftime_Ymd_int ` {t. Some t \<in> set ds}
     \<and> None \<notin> set ds"
proof (induction ds arbitrary: rows)
  case Nil
  then show ?case by simp
next
  case (Cons d ds)
  then obtain r rs where r: "date_row d = Inr r"
    and rs: "traverse_err date_row ds = Inr rs" and rows: "rows = r # rs"
    by (auto simp add: bind_err_def split: sum.splits)
  from r obtain t where t: "d = Some t" "dim_date_row.date_key r = strftime_Ymd_int t"
    by (cases d) auto
  from Cons.IH [OF rs] t rows show ?case by auto
qed

lemma set_unique: "set (unique xs) = set xs"
  by (simp add: unique_def set_unique_from)

lemma dim_date_key_set:
  assumes "dim_date df_ehr df_lims df_appointments = Inr rows"
  shows "set (map dim_date_row.date_key rows) =
     strftime_Ymd_int ` {t. Stamp t \<in> set (map encounter_date df_ehr)
                             \<union> set (map order_date df_lims)
                             \<union> set (map appointment_date df_appointments)}"
proof -
  from assms obtain e l a rows0 where
    e: "to_datetime (map encounter_date df_ehr) = Inr e" and
    l: "to_datetime (map order_date df_lims) = Inr l" and
    a: "to_datetime (map appointment_date df_appointments) = Inr a" and
    rows0: "traverse_err date_row (unique (e @ l @ a)) = Inr rows0" and
    rows: "rows = sort_key (\<lambda>r. ts_order (dim_date_row.date r)) rows0"
    by (auto simp add: dim_date_def bind_err_def Let_def split: sum.splits)
  have "set (map dim_date_row.date_key rows) = set (map dim_date_row.date_key rows0)"
    by (simp add: rows)
  also have "\<dots> = strftime_Ymd_int ` {t. Some t \<in> set (e @ l @ a)}"
    using date_rows_keys [OF rows0] by (simp add: set_unique)
  also have "{t. Some t \<in> set (e @ l @ a)} =
      {t. Some t \<in> set e} \<union> {t. Some t \<in> set l} \<union> {t. Some t \<in> set a}"
    by auto
  also have "\<dots> = {t. Stamp t \<in> set (map encounter_date df_ehr)
                             \<union> set (map order_date df_lims)
                             \<union> set (map appointment_date df_appointments)}"
    unfolding to_datetime_stamps [OF e] to_datetime_stamps [OF l] to_datetime_stamps [OF a]
    by auto
  finally show ?thesis .
qed

text \<open>
  Claim C5. In every run that builds the date dimension, the set of its \<^verbatim>\<open>date_key\<close> values
  is the set of the YYYYMMDD integers of the dates in the three date columns
  (\<^verbatim>\<open>encounter_date\<close>, \<^verbatim>\<open>order_date\<close>, \<^verbatim>\<open>appointment_date\<close>): none is missing, none is extra.
\<close>

theorem dim_date_keys:
  assumes "dim_date df_ehr df_lims df_appointments = Inr rows"
  shows "set (map dim_date_row.date_key rows) =
     strftime_Ymd_int ` {t. Stamp t \<in> set (map encounter_date df_ehr)
                             \<union> set (map order_date df_lims)
                             \<union> set (map appointment_date df_appointments)}"
  using assms by (rule dim_date_key_set)

theorem dim_date_keys_witness:
  "\<exists>rows. dim_date [example_encounter 1 evening, example_encounter 2 morning]
              [example_lab_result 1 next_day] [example_appointment 2 next_day] = Inr rows
     \<and> map dim_date_row.date rows = [morning, evening, next_day]
     \<and> set (map dim_date_row.date_key rows) = {20240105, 20240106}"
proof -
  obtain rows where run: "dim_date [example_encounter 1 evening, example_encounter 2 morning]
              [example_lab_result 1 next_day] [example_appointment 2 next_day] = Inr rows"
    and dates: "map dim_date_row.date rows = [morning, evening, next_day]"
    by (simp add: example_defs dim_date_eval)
  have "{t. Stamp t \<in> set (map encounter_date [example_encounter 1 evening, example_encounter 2 morning])
                  \<union> set (map order_date [example_lab_result 1 next_day])
                  \<union> set (map appointment_date [example_appointment 2 next_day])}
      = {evening, morning, next_day}"
    by (auto simp add: example_encounter_def example_lab_result_def example_appointment_def)
  moreover have "strftime_Ymd_int ` {evening, morning, next_day} = {20240105, 20240106}"
    by (simp add: morning_def evening_def next_day_def strftime_Ymd_int_def)
  ultimately have "set (map dim_date_row.date_key rows) = {20240105, 20240106}"
    using dim_date_keys [OF run] by simp
  with run dates show ?thesis
    by (intro exI [of _ rows] conjI)
qed

text \<open>
  What the date dimension is unique in: the rows carry pairwise different timestamps, in
  ascending order. Deduplication compares whole timestamps, time of day included.
\<close>

lemma date_rows_dates:
  "traverse_err date_row ds = Inr rows \<Longrightarrow> map Some (map dim_date_row.date rows) = ds"
proof (induction ds arbitrary: rows)
  case Nil
  then show ?case by simp
next
  case (Cons d ds)
  then obtain r rs where r: "date_row d = Inr r"
    and rs: "traverse_err date_row ds = Inr rs" and rows: "rows = r # rs"
    by (auto simp add: bind_err_def split: sum.splits)
  from r have "Some (dim_date_row.date r) = d"
    by (cases d) auto
  with Cons.IH [OF rs] rows show ?case by simp
qed

lemma distinct_unique: "distinct (unique xs)"
  by (simp add: unique_def distinct_unique_from)

lemma dim_date_one_row_per_timestamp:
  assumes "dim_date df_ehr df_lims df_appointments = Inr rows"
  shows "distinct (map dim_date_row.date rows)
     \<and> sorted (map (\<lambda>r. ts_order (dim_date_row.date r)) rows)"
proof -
  from assms obtain all_dates rows0 where
    rows0: "traverse_err date_row (unique all_dates) = Inr rows0" and
    rows: "rows = sort_key (\<lambda>r. ts_order (dim_date_row.date r)) rows0"
    by (auto simp add: dim_date_def bind_err_def Let_def split: sum.splits)
  from date_rows_dates [OF rows0] distinct_unique [of all_dates]
  have somes: "distinct (map Some (map dim_date_row.date rows0))" by simp
  have "distinct (map dim_date_row.date rows0)"
    using somes distinct_map [of Some "map dim_date_row.date rows0"] by blast
  then have "distinct (map dim_date_row.date rows)"
    unfolding rows by (simp add: distinct_map)
  moreover have "sorted (map (\<lambda>r. ts_order (dim_date_row.date r)) rows)"
    unfolding rows by (rule sorted_sort_key)
  ultimately show ?thesis ..
qed

text \<open>
  Claim C4 says that the date dimension has one row per calendar date, whatever the time
  of day of the source values, so that no \<^verbatim>\<open>date_key\<close> occurs in two rows. Two encounters on
  2024-01-05, at 17:30 and at 09:00, give two rows, both with \<^verbatim>\<open>date_key\<close> 20240105:
  \<^verbatim>\<open>all_dates.unique()\<close> runs on the timestamps before the day is taken from them.
\<close>

theorem dim_date_repeats_date_key:
  "\<exists>rows. dim_date [example_encounter 1 evening, example_encounter 1 morning] [] [] = Inr rows
     \<and> map dim_date_row.date rows = [morning, evening]
     \<and> map dim_date_row.date_key rows = [20240105, 20240105]"
  by (simp add: example_defs dim_date_eval)

section \<open>Properties of the fact tables\<close>








text \<open>
  Every date key of a fact table is a date key of the date dimension: no event date is
  without a dimension row.
\<close>

lemma date_keys_of_dates:
  "traverse_err date_key_of dates = Inr ks \<Longrightarrow>
     set ks = strftime_Ymd_int ` {t. Some t \<in> set dates}"
proof (induction dates arbitrary: ks)
  case Nil
  then show ?case by simp
next
  case (Cons d ds)
  then obtain k ks' where k: "date_key_of d = Inr k"
    and ks': "traverse_err date_key_of ds = Inr ks'" and ks: "ks = k # ks'"
    by (auto simp add: bind_err_def split: sum.splits)
  from k obtain t where "d = Some t" "k = strftime_Ymd_int t"
    by (cases d) auto
  with Cons.IH [OF ks'] ks show ?case by auto
qed

lemma merge_left_rows: "set (map fst (merge_left left right)) \<subseteq> set left"
  by (auto simp add: merge_left_def split: list.splits)

lemma build_fact_date_keys:
  assumes "build_fact date_column events dim_patient_tbl = Inr rows"
  shows "set (map fact_row.date_key rows)
     \<subseteq> strftime_Ymd_int ` {t. Stamp t \<in> set (map date_column events)}"
proof -
  define merged where "merged = merge_left events
      (map (\<lambda>p. (nhs_number p, dim_patient_row.patient_key p)) dim_patient_tbl)"
  from assms obtain dates ks where
    dates: "to_datetime (map (\<lambda>(row, pk). date_column row) merged) = Inr dates" and
    ks: "traverse_err date_key_of dates = Inr ks" and
    rows: "rows = map (\<lambda>((row, pk), k). \<lparr>event = row, patient_key = pk, date_key = k\<rparr>)
                    (zip merged ks)"
    by (auto simp add: build_fact_def merged_def [symmetric] bind_err_def Let_def
        split: sum.splits)
  have "length dates = length merged"
    using traverse_err_length [OF dates [unfolded to_datetime_def]] by simp
  with traverse_err_length [OF ks] have len: "length merged = length ks" by simp
  have "map fact_row.date_key rows = ks"
    unfolding rows
    using map_zip_right [OF len, of fact_row.date_key
        "\<lambda>m k. \<lparr>event = fst m, patient_key = snd m, date_key = k\<rparr>" "\<lambda>k. k"]
    by (simp add: split_def)
  then have "set (map fact_row.date_key rows) = strftime_Ymd_int ` {t. Some t \<in> set dates}"
    using date_keys_of_dates [OF ks] by simp
  also have "{t. Some t \<in> set dates}
      = {t. Stamp t \<in> set (map (\<lambda>(row, pk). date_column row) merged)}"
    by (rule to_datetime_stamps [OF dates])
  also have "set (map (\<lambda>(row, pk). date_column row) merged) \<subseteq> set (map date_column events)"
    using merge_left_rows [of events
        "map (\<lambda>p. (nhs_number p, dim_patient_row.patient_key p)) dim_patient_tbl"]
    unfolding merged_def by (auto simp add: split_def)
  finally show ?thesis
    by (auto intro: image_mono)
qed

lemma fact_date_keys_covered:
  assumes run: "transform df_pas df_ehr df_lims df_appointments = Inr t"
  shows "set (map fact_row.date_key (tbl_fact_encounters t))
           \<subseteq> set (map dim_date_row.date_key (tbl_dim_date t))
     \<and> set (map fact_row.date_key (tbl_fact_lab_tests t))
           \<subseteq> set (map dim_date_row.date_key (tbl_dim_date t))
     \<and> set (map fact_row.date_key (tbl_fact_appointments t))
           \<subseteq> set (map dim_date_row.date_key (tbl_dim_date t))"
proof -
  from run obtain dd fe fl fa where
    dd: "dim_date df_ehr df_lims df_appointments = Inr dd" and
    fe: "fact_encounters df_ehr (dim_patient df_pas) = Inr fe" and
    fl: "fact_lab_tests df_lims (dim_patient df_pas) = Inr fl" and
    fa: "fact_appointments df_appointments (dim_patient df_pas) = Inr fa" and
    t: "tbl_dim_date t = dd" "tbl_fact_encounters t = fe" "tbl_fact_lab_tests t = fl"
       "tbl_fact_appointments t = fa"
    by (auto simp add: transform_def bind_err_def Let_def split: sum.splits)
  have trunc: "map encounter_date (map encounter_cols.truncate df_ehr) = map encounter_date df_ehr"
    by (simp add: encounter_cols.truncate_def)
  note keys = dim_date_key_set [OF dd]
  from build_fact_date_keys [OF fe [unfolded fact_encounters_def]]
  have "set (map fact_row.date_key fe) \<subseteq> set (map dim_date_row.date_key dd)"
    unfolding keys trunc by blast
  moreover from build_fact_date_keys [OF fl [unfolded fact_lab_tests_def]]
  have "set (map fact_row.date_key fl) \<subseteq> set (map dim_date_row.date_key dd)"
    unfolding keys by blast
  moreover from build_fact_date_keys [OF fa [unfolded fact_appointments_def]]
  have "set (map fact_row.date_key fa) \<subseteq> set (map dim_date_row.date_key dd)"
    unfolding keys by blast
  ultimately show ?thesis
    unfolding t by blast
qed

text \<open>
  Claim C6 says that the \<^verbatim>\<open>date_key\<close> of every fact row matches exactly one row of the date
  dimension. A match always exists (\<open>fact_date_keys_covered\<close>), but it need not be unique:
  for two encounters on 2024-01-05 at different times of day each fact row's key 20240105
  matches two rows of the date dimension.
\<close>

theorem fact_date_key_matches_two_rows:
  "\<exists>t. transform [example_patient 1]
          [example_encounter 1 evening, example_encounter 1 morning] [] [] = Inr t
     \<and> map fact_row.date_key (tbl_fact_encounters t) = [20240105, 20240105]
     \<and> map dim_date_row.date_key (tbl_dim_date t) = [20240105, 20240105]
     \<and> map (\<lambda>r. length (filter (\<lambda>d. dim_date_row.date_key d = fact_row.date_key r)
                              (tbl_dim_date t))) (tbl_fact_encounters t) = [2, 2]"
  unfolding transform_def dim_patient_def upto_from_one
  by (simp add: example_defs dim_date_eval fact_eval)

end
